theory Spec2Isabelle
  imports Main "HOL-Library.Word"
begin

text \<open>
  The ZeroRPC client of \<open>client.go\<close>: \<open>Invoke\<close>, \<open>InvokeStream\<close> and \<open>InvokeReply\<close>.
  A call is a function of the socket state, of the functions the client calls in other
  files, and of the messages its channel hands over; it yields what the call returns,
  \<open>None\<close> (or \<open>Blocks\<close>) when it waits forever, and a panic where Go panics. Logging is
  left out.
\<close>

section \<open>Values, events and errors\<close>

text \<open>
  A Go slice is either \<open>nil\<close> or a sequence of elements: \<open>None\<close> is the nil slice,
  \<open>Some xs\<close> a non-nil slice holding \<open>xs\<close>. \<open>len\<close> of the nil slice is 0.
\<close>

type_synonym 'a slice = "'a list option"

definition len :: "'a slice \<Rightarrow> nat" where
  "len s = (case s of None \<Rightarrow> 0 | Some xs \<Rightarrow> length xs)"

text \<open>
  The dynamic values an \<open>interface{}\<close> argument of an Event holds: nil, string, integer
  (\<open>int64\<close>), float (its 64 bits), binary, nested sequence and mapping.
\<close>

datatype val =
    VNil
  | VString string
  | VInt64 "64 word"
  | VFloat64 "64 word"
  | VBytes "8 word list"
  | VSeq "val list"
  | VMap "(val \<times> val) list"

text \<open>
  The Event struct is declared outside \<open>client.go\<close>; the client reads its fields
  \<open>Name\<close> and \<open>Args\<close> (a \<open>[]interface{}\<close>). The header is the mapping of the wire
  envelope.
\<close>

record event =
  Header :: "(string \<times> val) list"
  Name :: string
  Args :: "val slice"

text \<open>The kinds of \<open>reflect.Kind\<close> that \<open>InvokeReply\<close> tells apart; every other
  kind (Bool, Float64, Slice, Map, Interface, ...) is \<open>reflect_Other\<close>.\<close>

datatype Kind = reflect_Invalid | reflect_Int | reflect_String | reflect_Struct
  | reflect_Ptr | reflect_Other

text \<open>
  Go values as \<open>reflect\<close> sees them. A struct is the list of its fields in declaration
  order; a field has a name, is exported or not, and holds a value. \<open>GoPtr v\<close> is a
  non-nil pointer to a variable that currently holds \<open>v\<close>; \<open>GoNilPtr t\<close> is the nil
  pointer of type \<open>*t\<close>. \<open>int\<close> is taken to be 64 bits wide.
\<close>

datatype 'a field = StructField (fname: string) (exported: bool) (fval: 'a)

datatype gotype = TInt | TString | TStruct "gotype field list" | TPtr gotype | TOther

datatype govalue =
    GoInt "64 word"
  | GoString string
  | GoStruct "govalue field list"
  | GoPtr govalue
  | GoNilPtr gotype
  | GoOther

text \<open>
  An \<open>error\<close> value. \<open>Errorf fmt operands\<close> is the error \<open>fmt.Errorf(fmt, operands...)\<close>
  builds: its message is a function of the format and the operands. A nil \<open>error\<close> is
  \<open>None\<close> of type \<open>error option\<close>.
\<close>

datatype fmt_arg = FmtArgs "val slice" | FmtKind Kind | FmtValue "govalue option"

datatype error =
    Errorf string "fmt_arg list"
  | ErrLostRemote
  | DuplicateTaskError
  | Error string

section \<open>The socket and its channels\<close>

text \<open>
  Modelled from the spec: the socket (the Multiplexer) and \<open>channel.close\<close> are not part
  of \<open>client.go\<close>. The Multiplexer owns the mapping from channel id to Channel for all
  currently open channels, and each open channel has a heartbeat timer; the state keeps
  the ids registered in the mapping and the ids whose heartbeat timer is running.
\<close>

type_synonym chan_id = string

record socket =
  channels :: "chan_id set"
  heartbeats :: "chan_id set"

text \<open>
  Modelled from the spec: \<open>close()\<close> "stops the heartbeat timer and unregisters the
  channel from the Multiplexer".
\<close>

definition close :: "socket \<Rightarrow> chan_id \<Rightarrow> socket" where
  "close s ch = s\<lparr>channels := channels s - {ch}, heartbeats := heartbeats s - {ch}\<rparr>"

text \<open>
  What one \<open>select\<close> of the client receives: an Event from \<open>ch.channelOutput\<close> or an
  error value (possibly nil) from \<open>ch.channelErrors\<close>. The channel type is declared
  outside \<open>client.go\<close>; a receipt from \<open>channelOutput\<close> is taken to be an Event whose
  fields can be read.
\<close>

datatype chan_msg = Output event | ChanError "error option"

text \<open>
  The collaborators of \<open>client.go\<close> that are declared elsewhere are parameters of the
  model: \<open>newEvent\<close>, \<open>socket.newChannel\<close> and \<open>channel.sendEvent\<close> are arbitrary
  functions, and \<open>received\<close> lists, in the order the \<open>select\<close> statements of one call
  take them, the messages the opened channel hands to the caller. After the last message
  of the list nothing arrives any more: a \<open>select\<close> on the empty list blocks forever.
\<close>

record env =
  newEvent :: "string \<Rightarrow> val slice \<Rightarrow> error + event"
  newChannel :: "socket \<Rightarrow> string \<Rightarrow> chan_id \<times> socket"
  sendEvent :: "socket \<Rightarrow> chan_id \<Rightarrow> event \<Rightarrow> error option \<times> socket"
  received :: "chan_msg list"

section \<open>Invoke\<close>

text \<open>
  The receive loop of \<open>Invoke\<close> (lines 96-108). Every branch of the \<open>select\<close> returns,
  so the first message decides. \<open>None\<close>: the call never returns.
\<close>

fun Invoke_loop :: "chan_msg list \<Rightarrow> (val slice \<times> error option) option" where
  "Invoke_loop [] = None"
| "Invoke_loop (Output response # rest) =
     (if Name response = ''ERR''
      then Some (Args response, Some (Errorf ''%s'' [FmtArgs (Args response)]))
      else Some (Args response, None))"
| "Invoke_loop (ChanError err # rest) = Some (None, err)"

text \<open>
  \<open>Invoke\<close> (lines 80-109). The result is the returned pair and the socket state at
  return; the deferred \<open>ch.close()\<close> runs on every return after the channel was opened.
\<close>

definition Invoke ::
  "env \<Rightarrow> socket \<Rightarrow> string \<Rightarrow> val slice \<Rightarrow> ((val slice \<times> error option) \<times> socket) option" where
  "Invoke e s name args =
     (case newEvent e name args of
        Inl err \<Rightarrow> Some ((None, Some err), s)
      | Inr ev \<Rightarrow>
          (let (ch, s1) = newChannel e s '''';
               (err, s2) = sendEvent e s1 ch ev
           in case err of
                Some x \<Rightarrow> Some ((None, Some x), close s2 ch)
              | None \<Rightarrow>
                  (case Invoke_loop (received e) of
                     None \<Rightarrow> None
                   | Some r \<Rightarrow> Some (r, close s2 ch))))"

section \<open>InvokeStream\<close>

text \<open>
  The receive loop of \<open>InvokeStream\<close> (lines 213-231), with the accumulator \<open>out\<close>.
  Only a \<open>"STREAM"\<close> Event goes round the loop again.
\<close>

fun InvokeStream_loop ::
  "val slice list \<Rightarrow> chan_msg list \<Rightarrow> (val slice list option \<times> error option) option" where
  "InvokeStream_loop out [] = None"
| "InvokeStream_loop out (Output response # rest) =
     (if Name response = ''ERR''
      then Some (Some (out @ [Args response]), Some (Errorf ''%s'' [FmtArgs (Args response)]))
      else if Name response = ''OK''
      then Some (Some (out @ [Args response]), None)
      else if Name response = ''STREAM''
      then InvokeStream_loop (out @ [Args response]) rest
      else Some (Some out, None))"
| "InvokeStream_loop out (ChanError err # rest) = Some (None, err)"

text \<open>\<open>InvokeStream\<close> (lines 195-232): the setup of \<open>Invoke\<close>, then the loop started on
  the empty, non-nil accumulator \<open>make([][]interface{}, 0)\<close>.\<close>

definition InvokeStream ::
  "env \<Rightarrow> socket \<Rightarrow> string \<Rightarrow> val slice
     \<Rightarrow> ((val slice list option \<times> error option) \<times> socket) option" where
  "InvokeStream e s name args =
     (case newEvent e name args of
        Inl err \<Rightarrow> Some ((None, Some err), s)
      | Inr ev \<Rightarrow>
          (let (ch, s1) = newChannel e s '''';
               (err, s2) = sendEvent e s1 ch ev
           in case err of
                Some x \<Rightarrow> Some ((None, Some x), close s2 ch)
              | None \<Rightarrow>
                  (case InvokeStream_loop [] (received e) of
                     None \<Rightarrow> None
                   | Some r \<Rightarrow> Some (r, close s2 ch))))"

section \<open>InvokeReply\<close>

text \<open>
  The part of package \<open>reflect\<close> that \<open>InvokeReply\<close> calls. A \<open>reflect.Value\<close> is the
  value it holds, \<open>None\<close> being the zero Value; \<open>reflect.ValueOf(i)\<close> of a nil interface
  is the zero Value and \<open>reflect.TypeOf(i)\<close> of a nil interface is the nil Type.
  The methods panic where the package's documentation says they do.
\<close>

datatype panic =
    ValueError string Kind
  | PanicString string
  | TypeAssertionError
  | IndexOutOfRange
  | NilPointerDereference

datatype 'a outcome = Returns 'a | Panics panic | Blocks

type_synonym Value = "govalue option"

primrec type_of :: "govalue \<Rightarrow> gotype" where
  "type_of (GoInt x) = TInt"
| "type_of (GoString x) = TString"
| "type_of (GoStruct fs) = TStruct (map (map_field type_of) fs)"
| "type_of (GoPtr v) = TPtr (type_of v)"
| "type_of (GoNilPtr t) = TPtr t"
| "type_of GoOther = TOther"

definition ValueOf :: "govalue option \<Rightarrow> Value" where
  "ValueOf i = i"

definition TypeOf :: "govalue option \<Rightarrow> gotype option" where
  "TypeOf i = map_option type_of i"

fun Value_Kind :: "Value \<Rightarrow> Kind" where
  "Value_Kind None = reflect_Invalid"
| "Value_Kind (Some (GoInt x)) = reflect_Int"
| "Value_Kind (Some (GoString x)) = reflect_String"
| "Value_Kind (Some (GoStruct fs)) = reflect_Struct"
| "Value_Kind (Some (GoPtr v)) = reflect_Ptr"
| "Value_Kind (Some (GoNilPtr t)) = reflect_Ptr"
| "Value_Kind (Some GoOther) = reflect_Other"

fun Type_Kind :: "gotype \<Rightarrow> Kind" where
  "Type_Kind TInt = reflect_Int"
| "Type_Kind TString = reflect_String"
| "Type_Kind (TStruct fs) = reflect_Struct"
| "Type_Kind (TPtr t) = reflect_Ptr"
| "Type_Kind TOther = reflect_Other"

text \<open>\<open>Value.Elem\<close>: the value a pointer points to, the zero Value for a nil pointer.
  "It panics if v's Kind is not Interface or Pointer"; the Value of an \<open>interface{}\<close>
  argument never has Kind Interface.\<close>

fun Value_Elem :: "Value \<Rightarrow> panic + Value" where
  "Value_Elem (Some (GoPtr v)) = Inr (Some v)"
| "Value_Elem (Some (GoNilPtr t)) = Inr None"
| "Value_Elem v = Inl (ValueError ''reflect.Value.Elem'' (Value_Kind v))"

text \<open>\<open>Type.Elem\<close> of a pointer type; \<open>InvokeReply\<close> calls it on pointer types only.\<close>

fun Type_Elem :: "gotype \<Rightarrow> panic + gotype" where
  "Type_Elem (TPtr t) = Inr t"
| "Type_Elem t = Inl (PanicString ''reflect: Elem of invalid type'')"

text \<open>\<open>Type.NumField\<close>: "It panics if the type's Kind is not Struct."\<close>

fun NumField :: "gotype \<Rightarrow> panic + nat" where
  "NumField (TStruct fs) = Inr (length fs)"
| "NumField t = Inl (PanicString ''reflect: NumField of non-struct type'')"

text \<open>\<open>Value.Field(i)\<close>: "It panics if v's Kind is not Struct or i is out of range."\<close>

fun Value_Field :: "Value \<Rightarrow> nat \<Rightarrow> panic + govalue field" where
  "Value_Field (Some (GoStruct fs)) i =
     (if i < length fs then Inr (fs ! i)
      else Inl (PanicString ''reflect: Field index out of range''))"
| "Value_Field v i = Inl (ValueError ''reflect.Value.Field'' (Value_Kind v))"

text \<open>A field reached through a pointer is addressable, so it can be set exactly when
  it is exported.\<close>

definition CanSet :: "govalue field \<Rightarrow> bool" where
  "CanSet f = exported f"

text \<open>The effect of \<open>val.Field(i).SetInt(x)\<close> and \<open>val.Field(i).SetString(x)\<close> on the
  struct behind \<open>val\<close>: field \<open>i\<close> now holds the new value.\<close>

fun SetField :: "Value \<Rightarrow> nat \<Rightarrow> govalue \<Rightarrow> Value" where
  "SetField (Some (GoStruct fs)) i x =
     Some (GoStruct (fs[i := StructField (fname (fs ! i)) (exported (fs ! i)) x]))"
| "SetField v i x = v"

text \<open>\<open>reply_args[i]\<close>: indexing a slice out of range (always so for the nil slice)
  panics.\<close>

definition index :: "'a slice \<Rightarrow> nat \<Rightarrow> panic + 'a" where
  "index xs i =
     (case xs of
        None \<Rightarrow> Inl IndexOutOfRange
      | Some ys \<Rightarrow> if i < length ys then Inr (ys ! i) else Inl IndexOutOfRange)"

text \<open>
  The loop of \<open>InvokeReply\<close> (lines 127-143); \<open>n\<close> is \<open>typ.NumField()\<close>, which does not
  change. The type assertions \<open>r.(int64)\<close> and \<open>r.(string)\<close> panic on a value of another
  dynamic type.
\<close>

function InvokeReply_loop :: "nat \<Rightarrow> nat \<Rightarrow> Value \<Rightarrow> val slice \<Rightarrow> panic + Value" where
  "InvokeReply_loop i n val reply_args =
     (if i < n then
        (case Value_Field val i of
           Inl p \<Rightarrow> Inl p
         | Inr f \<Rightarrow>
             if \<not> CanSet f then InvokeReply_loop (i + 1) n val reply_args
             else (case index reply_args i of
                     Inl p \<Rightarrow> Inl p
                   | Inr r \<Rightarrow>
                      (case Value_Kind (Some (fval f)) of
                         reflect_Int \<Rightarrow>
                           (case r of
                              VInt64 x \<Rightarrow>
                                InvokeReply_loop (i + 1) n (SetField val i (GoInt x)) reply_args
                            | _ \<Rightarrow> Inl TypeAssertionError)
                       | reflect_String \<Rightarrow>
                           (case r of
                              VString x \<Rightarrow>
                                InvokeReply_loop (i + 1) n (SetField val i (GoString x)) reply_args
                            | _ \<Rightarrow> Inl TypeAssertionError)
                       | _ \<Rightarrow> InvokeReply_loop (i + 1) n val reply_args)))
      else Inr val)"
  by pat_completeness auto
termination
  by (relation "measure (\<lambda>(i, n, val, reply_args). n - i)") auto

text \<open>What the caller's \<open>reply\<close> is after the loop: the same pointer, its target
  holding the updated struct.\<close>

definition stored :: "govalue option \<Rightarrow> Value \<Rightarrow> govalue option" where
  "stored reply val = (case val of None \<Rightarrow> reply | Some v \<Rightarrow> Some (GoPtr v))"

text \<open>
  \<open>InvokeReply\<close> (lines 111-145). \<open>reply\<close> is the \<open>interface{}\<close> argument, \<open>None\<close> the
  nil interface. A return gives the error, the caller's \<open>reply\<close> as the call leaves it
  and the socket; \<open>Blocks\<close>: the inner \<open>Invoke\<close> never returns. Line 113 evaluates
  \<open>reflect.ValueOf(reply).Elem()\<close> before line 116 tests the kind of the type.
\<close>

definition InvokeReply ::
  "env \<Rightarrow> socket \<Rightarrow> string \<Rightarrow> govalue option \<Rightarrow> val slice
     \<Rightarrow> (error option \<times> govalue option \<times> socket) outcome" where
  "InvokeReply e s name reply args =
     (case Value_Elem (ValueOf reply) of
        Inl p \<Rightarrow> Panics p
      | Inr val \<Rightarrow>
          (case TypeOf reply of
             None \<Rightarrow> Panics NilPointerDereference
           | Some typ \<Rightarrow>
               if Type_Kind typ \<noteq> reflect_Ptr
               then Returns (Some (Errorf ''reply must be pointer, get %s %s''
                                     [FmtKind (Value_Kind val), FmtValue val]), reply, s)
               else
                 (case Type_Elem typ of
                    Inl p \<Rightarrow> Panics p
                  | Inr typ' \<Rightarrow>
                      (case Invoke e s name args of
                         None \<Rightarrow> Blocks
                       | Some ((reply_args, err), s') \<Rightarrow>
                           if err \<noteq> None then Returns (err, reply, s')
                           else
                             (case NumField typ' of
                                Inl p \<Rightarrow> Panics p
                              | Inr n \<Rightarrow>
                                  if n \<noteq> len reply_args then Returns (err, reply, s')
                                  else
                                    (case InvokeReply_loop 0 n val reply_args of
                                       Inl p \<Rightarrow> Panics p
                                     | Inr val' \<Rightarrow> Returns (err, stored reply val', s')))))))"

section \<open>The task registry of the server\<close>

text \<open>
  Modelled from the spec: the server is not part of the sources, only its test
  \<open>TestServerRegister\<close> is. The task registry is a "mapping name -> handler (unique;
  duplicate registration is rejected)", a new server has registered nothing, and
  \<open>RegisterTask(name, handler)\<close> "fails with DuplicateTaskError if name is already
  registered". The result is the returned error and the server afterwards.
\<close>

record 'h server =
  tasks :: "string \<rightharpoonup> 'h"

definition NewServer :: "'h server" where
  "NewServer = \<lparr>tasks = Map.empty\<rparr>"

definition RegisterTask :: "'h server \<Rightarrow> string \<Rightarrow> 'h \<Rightarrow> error option \<times> 'h server" where
  "RegisterTask srv name handler =
     (if name \<in> dom (tasks srv) then (Some DuplicateTaskError, srv)
      else (None, srv\<lparr>tasks := (tasks srv)(name \<mapsto> handler)\<rparr>))"

section \<open>A concrete environment\<close>

text \<open>
  An environment to run the model on: \<open>newEvent\<close> builds the Event from its name and
  arguments, \<open>newChannel\<close> registers the id \<open>''c1''\<close>, \<open>sendEvent\<close> succeeds and starts
  the heartbeat of the channel, and the channel delivers \<open>msgs\<close>.
\<close>

definition run_env :: "chan_msg list \<Rightarrow> env" where
  "run_env msgs =
     \<lparr>newEvent = (\<lambda>name args. Inr \<lparr>Header = [], Name = name, Args = args\<rparr>),
      newChannel = (\<lambda>s i. (''c1'', s\<lparr>channels := insert ''c1'' (channels s)\<rparr>)),
      sendEvent = (\<lambda>s ch x. (None, s\<lparr>heartbeats := insert ch (heartbeats s)\<rparr>)),
      received = msgs\<rparr>"

text \<open>The same, but the write of \<open>sendEvent\<close> fails after the heartbeat was started.\<close>

definition send_fails_env :: "error \<Rightarrow> env" where
  "send_fails_env x =
     \<lparr>newEvent = (\<lambda>name args. Inr \<lparr>Header = [], Name = name, Args = args\<rparr>),
      newChannel = (\<lambda>s i. (''c1'', s\<lparr>channels := insert ''c1'' (channels s)\<rparr>)),
      sendEvent = (\<lambda>s ch y. (Some x, s\<lparr>heartbeats := insert ch (heartbeats s)\<rparr>)),
      received = []\<rparr>"

definition no_channels :: socket where
  "no_channels = \<lparr>channels = {}, heartbeats = {}\<rparr>"

definition ev :: "string \<Rightarrow> val list \<Rightarrow> event" where
  "ev name args = \<lparr>Header = [], Name = name, Args = Some args\<rparr>"

section \<open>Properties of Invoke and InvokeStream\<close>

lemma Invoke_after_send:
  assumes "newEvent e name args = Inr x"
    and "newChannel e s '''' = (ch, s1)"
    and "sendEvent e s1 ch x = (None, s2)"
  shows "Invoke e s name args = map_option (\<lambda>r. (r, close s2 ch)) (Invoke_loop (received e))"
  using assms by (simp add: Invoke_def split: option.splits)

lemma InvokeStream_after_send:
  assumes "newEvent e name args = Inr x"
    and "newChannel e s '''' = (ch, s1)"
    and "sendEvent e s1 ch x = (None, s2)"
  shows "InvokeStream e s name args =
    map_option (\<lambda>r. (r, close s2 ch)) (InvokeStream_loop [] (received e))"
  using assms by (simp add: InvokeStream_def split: option.splits)

lemma InvokeStream_loop_streams:
  "\<forall>r \<in> set pre. Name r = ''STREAM'' \<Longrightarrow>
     InvokeStream_loop out (map Output pre @ rest) = InvokeStream_loop (out @ map Args pre) rest"
  by (induction pre arbitrary: out) simp_all

text \<open>After a successful send, \<open>Invoke\<close> returns exactly when something arrives, and
  \<open>InvokeStream\<close> exactly when something other than a \<open>"STREAM"\<close> Event arrives.\<close>

lemma Invoke_loop_blocks_iff: "Invoke_loop ms = None \<longleftrightarrow> ms = []"
  by (cases ms rule: Invoke_loop.cases) simp_all

lemma InvokeStream_loop_blocks_iff:
  "InvokeStream_loop out ms = None \<longleftrightarrow> (\<forall>m \<in> set ms. \<exists>r. m = Output r \<and> Name r = ''STREAM'')"
  by (induction out ms rule: InvokeStream_loop.induct) auto

lemma run_env_simps [simp]:
  "newEvent (run_env msgs) name args = Inr \<lparr>Header = [], Name = name, Args = args\<rparr>"
  "newChannel (run_env msgs) s i = (''c1'', s\<lparr>channels := insert ''c1'' (channels s)\<rparr>)"
  "sendEvent (run_env msgs) s ch x = (None, s\<lparr>heartbeats := insert ch (heartbeats s)\<rparr>)"
  "received (run_env msgs) = msgs"
  by (simp_all add: run_env_def)

text \<open>
  C1. When the \<open>select\<close> of \<open>Invoke\<close> receives an Event from the channel's queue, the call
  returns that Event's args; the error is the non-nil \<open>fmt.Errorf("%s", args)\<close> when the
  Event is named \<open>"ERR"\<close>, and nil for every other name.
\<close>

theorem Invoke_returns_event_args:
  assumes "newEvent e name args = Inr x"
    and "newChannel e s '''' = (ch, s1)"
    and "sendEvent e s1 ch x = (None, s2)"
    and "received e = Output response # rest"
  shows "map_option fst (Invoke e s name args) =
           Some (Args response,
                 if Name response = ''ERR''
                 then Some (Errorf ''%s'' [FmtArgs (Args response)]) else None)"
  using assms by (simp add: Invoke_after_send)

theorem Invoke_returns_event_args_witness:
  "map_option fst (Invoke (run_env [Output (ev ''ERR'' [VString ''boom''])]) no_channels
       ''hello'' (Some [VString ''World'']))
     = Some (Some [VString ''boom''], Some (Errorf ''%s'' [FmtArgs (Some [VString ''boom''])]))
   \<and> map_option fst (Invoke (run_env [Output (ev ''OK'' [VString ''Hello,World''])]) no_channels
       ''hello'' (Some [VString ''World'']))
     = Some (Some [VString ''Hello,World''], None)"
  using Invoke_returns_event_args
      [of "run_env [Output (ev ''ERR'' [VString ''boom''])]" "''hello''"
          "Some [VString ''World'']" _ no_channels _ _ _ "ev ''ERR'' [VString ''boom'']" "[]"]
    Invoke_returns_event_args
      [of "run_env [Output (ev ''OK'' [VString ''Hello,World''])]" "''hello''"
          "Some [VString ''World'']" _ no_channels _ _ _ "ev ''OK'' [VString ''Hello,World'']" "[]"]
  by (simp add: ev_def)

text \<open>
  C2. \<open>InvokeStream\<close> appends the args of every \<open>"STREAM"\<close> Event and goes on; an \<open>"OK"\<close>
  Event is appended and ends the call with the accumulator and a nil error; an \<open>"ERR"\<close>
  Event is appended and ends the call with the accumulator and the non-nil error
  \<open>fmt.Errorf("%s", args)\<close>. In particular STREAM(1), STREAM(2), OK(3) gives
  [[1],[2],[3]] and no error, and STREAM(1), STREAM(2), ERR(3) gives the same sequence
  and a non-nil error.
\<close>

theorem InvokeStream_accumulates:
  assumes "newEvent e name args = Inr x"
    and "newChannel e s '''' = (ch, s1)"
    and "sendEvent e s1 ch x = (None, s2)"
  shows "(received e = map Output pre @ Output t # rest
            \<and> (\<forall>r \<in> set pre. Name r = ''STREAM'') \<and> Name t = ''OK''
          \<longrightarrow> map_option fst (InvokeStream e s name args)
                = Some (Some (map Args pre @ [Args t]), None))
       \<and> (received e = map Output pre @ Output t # rest
            \<and> (\<forall>r \<in> set pre. Name r = ''STREAM'') \<and> Name t = ''ERR''
          \<longrightarrow> map_option fst (InvokeStream e s name args)
                = Some (Some (map Args pre @ [Args t]),
                        Some (Errorf ''%s'' [FmtArgs (Args t)])))
       \<and> (received e = [Output \<lparr>Header = h1, Name = ''STREAM'', Args = Some [VInt64 1]\<rparr>,
                         Output \<lparr>Header = h2, Name = ''STREAM'', Args = Some [VInt64 2]\<rparr>,
                         Output \<lparr>Header = h3, Name = ''OK'', Args = Some [VInt64 3]\<rparr>]
          \<longrightarrow> map_option fst (InvokeStream e s name args)
                = Some (Some [Some [VInt64 1], Some [VInt64 2], Some [VInt64 3]], None))
       \<and> (received e = [Output \<lparr>Header = h1, Name = ''STREAM'', Args = Some [VInt64 1]\<rparr>,
                         Output \<lparr>Header = h2, Name = ''STREAM'', Args = Some [VInt64 2]\<rparr>,
                         Output \<lparr>Header = h3, Name = ''ERR'', Args = Some [VInt64 3]\<rparr>]
          \<longrightarrow> map_option fst (InvokeStream e s name args)
                = Some (Some [Some [VInt64 1], Some [VInt64 2], Some [VInt64 3]],
                        Some (Errorf ''%s'' [FmtArgs (Some [VInt64 3])])))"
proof (intro conjI impI)
  note run = InvokeStream_after_send [OF assms]
  {
    assume "received e = map Output pre @ Output t # rest
              \<and> (\<forall>r \<in> set pre. Name r = ''STREAM'') \<and> Name t = ''OK''"
    then show "map_option fst (InvokeStream e s name args)
                 = Some (Some (map Args pre @ [Args t]), None)"
      by (simp add: run InvokeStream_loop_streams)
  next
    assume "received e = map Output pre @ Output t # rest
              \<and> (\<forall>r \<in> set pre. Name r = ''STREAM'') \<and> Name t = ''ERR''"
    then show "map_option fst (InvokeStream e s name args)
                 = Some (Some (map Args pre @ [Args t]), Some (Errorf ''%s'' [FmtArgs (Args t)]))"
      by (simp add: run InvokeStream_loop_streams)
  next
    assume "received e = [Output \<lparr>Header = h1, Name = ''STREAM'', Args = Some [VInt64 1]\<rparr>,
                          Output \<lparr>Header = h2, Name = ''STREAM'', Args = Some [VInt64 2]\<rparr>,
                          Output \<lparr>Header = h3, Name = ''OK'', Args = Some [VInt64 3]\<rparr>]"
    then show "map_option fst (InvokeStream e s name args)
                 = Some (Some [Some [VInt64 1], Some [VInt64 2], Some [VInt64 3]], None)"
      by (simp add: run)
  next
    assume "received e = [Output \<lparr>Header = h1, Name = ''STREAM'', Args = Some [VInt64 1]\<rparr>,
                          Output \<lparr>Header = h2, Name = ''STREAM'', Args = Some [VInt64 2]\<rparr>,
                          Output \<lparr>Header = h3, Name = ''ERR'', Args = Some [VInt64 3]\<rparr>]"
    then show "map_option fst (InvokeStream e s name args)
                 = Some (Some [Some [VInt64 1], Some [VInt64 2], Some [VInt64 3]],
                         Some (Errorf ''%s'' [FmtArgs (Some [VInt64 3])]))"
      by (simp add: run)
  }
qed

theorem InvokeStream_accumulates_witness:
  "map_option fst (InvokeStream
       (run_env [Output (ev ''STREAM'' [VInt64 1]), Output (ev ''STREAM'' [VInt64 2]),
                 Output (ev ''OK'' [VInt64 3])])
       no_channels ''streaming_range'' (Some [VInt64 1, VInt64 4, VInt64 1]))
     = Some (Some [Some [VInt64 1], Some [VInt64 2], Some [VInt64 3]], None)
   \<and> map_option fst (InvokeStream
       (run_env [Output (ev ''STREAM'' [VInt64 1]), Output (ev ''STREAM'' [VInt64 2]),
                 Output (ev ''ERR'' [VInt64 3])])
       no_channels ''streaming_range'' (Some [VInt64 1, VInt64 4, VInt64 1]))
     = Some (Some [Some [VInt64 1], Some [VInt64 2], Some [VInt64 3]],
             Some (Errorf ''%s'' [FmtArgs (Some [VInt64 3])]))"
  using InvokeStream_accumulates
      [of "run_env [Output (ev ''STREAM'' [VInt64 1]), Output (ev ''STREAM'' [VInt64 2]),
                    Output (ev ''OK'' [VInt64 3])]"
          "''streaming_range''" "Some [VInt64 1, VInt64 4, VInt64 1]" _ no_channels _ _ _
          "[ev ''STREAM'' [VInt64 1], ev ''STREAM'' [VInt64 2]]" "ev ''OK'' [VInt64 3]" "[]"]
    InvokeStream_accumulates
      [of "run_env [Output (ev ''STREAM'' [VInt64 1]), Output (ev ''STREAM'' [VInt64 2]),
                    Output (ev ''ERR'' [VInt64 3])]"
          "''streaming_range''" "Some [VInt64 1, VInt64 4, VInt64 1]" _ no_channels _ _ _
          "[ev ''STREAM'' [VInt64 1], ev ''STREAM'' [VInt64 2]]" "ev ''ERR'' [VInt64 3]" "[]"]
  by (simp add: ev_def)

text \<open>
  C4. When the \<open>select\<close> receives from the error slot \<open>ch.channelErrors\<close> before the next
  Event of the queue, the call returns at once with that error and a nil result:
  \<open>Invoke\<close> at its first \<open>select\<close>, \<open>InvokeStream\<close> after any number of \<open>"STREAM"\<close>
  Events, whose accumulated args are dropped.
\<close>

theorem error_slot_returns_nil_result:
  assumes "newEvent e name args = Inr x"
    and "newChannel e s '''' = (ch, s1)"
    and "sendEvent e s1 ch x = (None, s2)"
  shows "(received e = ChanError err # rest
          \<longrightarrow> map_option fst (Invoke e s name args) = Some (None, err))
       \<and> (received e = map Output pre @ ChanError err # rest
            \<and> (\<forall>r \<in> set pre. Name r = ''STREAM'')
          \<longrightarrow> map_option fst (InvokeStream e s name args) = Some (None, err))"
proof (intro conjI impI)
  assume "received e = ChanError err # rest"
  then show "map_option fst (Invoke e s name args) = Some (None, err)"
    by (simp add: Invoke_after_send [OF assms])
next
  assume "received e = map Output pre @ ChanError err # rest
            \<and> (\<forall>r \<in> set pre. Name r = ''STREAM'')"
  then show "map_option fst (InvokeStream e s name args) = Some (None, err)"
    by (simp add: InvokeStream_after_send [OF assms] InvokeStream_loop_streams)
qed

theorem error_slot_returns_nil_result_witness:
  "map_option fst (Invoke (run_env [ChanError (Some ErrLostRemote)]) no_channels
       ''hello'' (Some [VString ''World'']))
     = Some (None, Some ErrLostRemote)
   \<and> map_option fst (InvokeStream
       (run_env [Output (ev ''STREAM'' [VInt64 1]), ChanError (Some ErrLostRemote),
                 Output (ev ''OK'' [VInt64 3])])
       no_channels ''streaming_range'' None)
     = Some (None, Some ErrLostRemote)"
  using error_slot_returns_nil_result
      [of "run_env [ChanError (Some ErrLostRemote)]" "''hello''" "Some [VString ''World'']"
          _ no_channels _ _ _ "Some ErrLostRemote" "[]" "[]"]
    error_slot_returns_nil_result
      [of "run_env [Output (ev ''STREAM'' [VInt64 1]), ChanError (Some ErrLostRemote),
                    Output (ev ''OK'' [VInt64 3])]"
          "''streaming_range''" None _ no_channels _ _ _
          "Some ErrLostRemote" "[Output (ev ''OK'' [VInt64 3])]" "[ev ''STREAM'' [VInt64 1]]"]
  by (simp add: ev_def)

text \<open>
  C5. An Event whose name is none of \<open>"STREAM"\<close>, \<open>"OK"\<close>, \<open>"ERR"\<close> ends
  \<open>InvokeStream\<close> at once: the call returns the accumulator as it stands, without the
  args of that Event, and a nil error.
\<close>

theorem InvokeStream_other_name_ends:
  assumes "newEvent e name args = Inr x"
    and "newChannel e s '''' = (ch, s1)"
    and "sendEvent e s1 ch x = (None, s2)"
    and "received e = map Output pre @ Output t # rest"
    and "\<forall>r \<in> set pre. Name r = ''STREAM''"
    and "Name t \<noteq> ''STREAM''" and "Name t \<noteq> ''OK''" and "Name t \<noteq> ''ERR''"
  shows "map_option fst (InvokeStream e s name args) = Some (Some (map Args pre), None)"
  using assms(4-8) by (simp add: InvokeStream_after_send [OF assms(1-3)] InvokeStream_loop_streams)

theorem InvokeStream_other_name_ends_witness:
  "map_option fst (InvokeStream
       (run_env [Output (ev ''STREAM'' [VInt64 1]), Output (ev ''_zpc_hb'' [VInt64 9]),
                 Output (ev ''OK'' [VInt64 3])])
       no_channels ''streaming_range'' None)
     = Some (Some [Some [VInt64 1]], None)"
  using InvokeStream_other_name_ends
      [of "run_env [Output (ev ''STREAM'' [VInt64 1]), Output (ev ''_zpc_hb'' [VInt64 9]),
                    Output (ev ''OK'' [VInt64 3])]"
          "''streaming_range''" None _ no_channels _ _ _
          "[ev ''STREAM'' [VInt64 1]]" "ev ''_zpc_hb'' [VInt64 9]" "[Output (ev ''OK'' [VInt64 3])]"]
  by (simp add: ev_def)

text \<open>
  C8. Every return of \<open>Invoke\<close> and of \<open>InvokeStream\<close> that comes after the channel was
  opened (send failure, ERR reply, OK reply, stream terminal, error-slot error) runs the
  deferred \<open>ch.close()\<close> last: the socket the call leaves behind is the socket after
  \<open>sendEvent\<close> with the channel closed, so the channel is no longer registered and its
  heartbeat timer is not running. A failed send returns at once, through the same
  \<open>close\<close>.
\<close>

theorem channel_closed_on_every_return:
  assumes "newEvent e name args = Inr x"
    and "newChannel e s '''' = (ch, s1)"
  shows "(Invoke e s name args = Some (r, s')
          \<longrightarrow> s' = close (snd (sendEvent e s1 ch x)) ch
              \<and> ch \<notin> channels s' \<and> ch \<notin> heartbeats s')
       \<and> (InvokeStream e s name args = Some (q, s'')
          \<longrightarrow> s'' = close (snd (sendEvent e s1 ch x)) ch
              \<and> ch \<notin> channels s'' \<and> ch \<notin> heartbeats s'')
       \<and> (sendEvent e s1 ch x = (Some err, s2)
          \<longrightarrow> Invoke e s name args = Some ((None, Some err), close s2 ch)
              \<and> InvokeStream e s name args = Some ((None, Some err), close s2 ch))"
proof (intro conjI impI)
  assume run: "Invoke e s name args = Some (r, s')"
  obtain err s2 where send: "sendEvent e s1 ch x = (err, s2)"
    by (cases "sendEvent e s1 ch x")
  from run assms send have "s' = close s2 ch"
    by (auto simp: Invoke_def split: option.splits)
  with send show "s' = close (snd (sendEvent e s1 ch x)) ch"
    and "ch \<notin> channels s'" and "ch \<notin> heartbeats s'"
    by (simp_all add: close_def)
next
  assume run: "InvokeStream e s name args = Some (q, s'')"
  obtain err s2 where send: "sendEvent e s1 ch x = (err, s2)"
    by (cases "sendEvent e s1 ch x")
  from run assms send have "s'' = close s2 ch"
    by (auto simp: InvokeStream_def split: option.splits)
  with send show "s'' = close (snd (sendEvent e s1 ch x)) ch"
    and "ch \<notin> channels s''" and "ch \<notin> heartbeats s''"
    by (simp_all add: close_def)
next
  assume "sendEvent e s1 ch x = (Some err, s2)"
  with assms show "Invoke e s name args = Some ((None, Some err), close s2 ch)"
    and "InvokeStream e s name args = Some ((None, Some err), close s2 ch)"
    by (simp_all add: Invoke_def InvokeStream_def)
qed

theorem channel_closed_on_every_return_witness:
  "(\<exists>s'. Invoke (send_fails_env (Error ''write failed'')) no_channels ''hello'' None
            = Some ((None, Some (Error ''write failed'')), s')
          \<and> ''c1'' \<notin> channels s' \<and> ''c1'' \<notin> heartbeats s')
   \<and> (\<exists>s'. InvokeStream (run_env [Output (ev ''STREAM'' [VInt64 1]), Output (ev ''OK'' [])])
              no_channels ''streaming_range'' None
            = Some ((Some [Some [VInt64 1], Some []], None), s')
          \<and> ''c1'' \<notin> channels s' \<and> ''c1'' \<notin> heartbeats s')"
proof -
  let ?opened = "no_channels\<lparr>channels := insert ''c1'' (channels no_channels)\<rparr>"
  let ?e1 = "send_fails_env (Error ''write failed'')"
  let ?e2 = "run_env [Output (ev ''STREAM'' [VInt64 1]), Output (ev ''OK'' [])]"
  have ev1: "newEvent ?e1 ''hello'' None = Inr \<lparr>Header = [], Name = ''hello'', Args = None\<rparr>"
    and ch1: "newChannel ?e1 no_channels '''' = (''c1'', ?opened)"
    by (simp_all add: send_fails_env_def)
  obtain s' where a: "Invoke ?e1 no_channels ''hello'' None
      = Some ((None, Some (Error ''write failed'')), s')"
    by (simp add: Invoke_def send_fails_env_def)
  from channel_closed_on_every_return [OF ev1 ch1, THEN conjunct1, THEN mp, OF a]
  have "''c1'' \<notin> channels s' \<and> ''c1'' \<notin> heartbeats s'"
    by blast
  with a have first: "\<exists>s'. Invoke ?e1 no_channels ''hello'' None
            = Some ((None, Some (Error ''write failed'')), s')
          \<and> ''c1'' \<notin> channels s' \<and> ''c1'' \<notin> heartbeats s'"
    by blast
  have ev2: "newEvent ?e2 ''streaming_range'' None
               = Inr \<lparr>Header = [], Name = ''streaming_range'', Args = None\<rparr>"
    and ch2: "newChannel ?e2 no_channels '''' = (''c1'', ?opened)"
    by simp_all
  obtain t' where b: "InvokeStream ?e2 no_channels ''streaming_range'' None
            = Some ((Some [Some [VInt64 1], Some []], None), t')"
    by (simp add: InvokeStream_def ev_def)
  from channel_closed_on_every_return
      [OF ev2 ch2, THEN conjunct2, THEN conjunct1, THEN mp, OF b]
  have "''c1'' \<notin> channels t' \<and> ''c1'' \<notin> heartbeats t'"
    by blast
  with b have "\<exists>s'. InvokeStream ?e2 no_channels ''streaming_range'' None
            = Some ((Some [Some [VInt64 1], Some []], None), s')
          \<and> ''c1'' \<notin> channels s' \<and> ''c1'' \<notin> heartbeats s'"
    by blast
  with first show ?thesis by blast
qed

section \<open>Properties of InvokeReply\<close>

lemma NumField_type_of_struct [simp]: "NumField (type_of (GoStruct fs)) = Inr (length fs)"
  by simp

lemma Elem_succeeds_on_pointers_only:
  "Value_Elem (ValueOf reply) = Inr val \<Longrightarrow> TypeOf reply = Some typ
     \<Longrightarrow> Type_Kind typ = reflect_Ptr"
  by (cases reply; cases "the reply") (auto simp: ValueOf_def TypeOf_def)

text \<open>
  The run of \<open>TestInvokeReply\<close>: the task answers \<open>"Hello,World"\<close> and the exported string
  field \<open>Word\<close> of the struct behind \<open>reply\<close> receives it.
\<close>

lemma InvokeReply_sets_Word:
  "\<exists>s'. InvokeReply (run_env [Output (ev ''OK'' [VString ''Hello,World''])]) no_channels ''hello''
       (Some (GoPtr (GoStruct [StructField ''Word'' True (GoString '''')])))
       (Some [VString ''World''])
     = Returns (None,
         Some (GoPtr (GoStruct [StructField ''Word'' True (GoString ''Hello,World'')])), s')"
  by (simp add: InvokeReply_def Invoke_def ValueOf_def TypeOf_def ev_def len_def CanSet_def
      index_def stored_def)

text \<open>
  C9. When \<open>reply\<close> is a pointer to a struct and the inner \<open>Invoke\<close> succeeds with a
  number of args that differs from the number of fields of the struct, \<open>InvokeReply\<close>
  returns a nil error and \<open>reply\<close>, with the struct behind it, is as it was: line 124
  returns before any field is visited.
\<close>

theorem InvokeReply_arity_mismatch_is_noop:
  assumes "TypeOf reply = Some (TPtr typ)"
    and "NumField typ = Inr n"
    and "Invoke e s name args = Some ((reply_args, None), s')"
    and "n \<noteq> len reply_args"
  shows "InvokeReply e s name reply args = Returns (None, reply, s')"
proof -
  from assms(1) obtain v where reply: "reply = Some v" and v: "type_of v = TPtr typ"
    by (auto simp: TypeOf_def)
  from v have "\<exists>val. Value_Elem (ValueOf reply) = Inr val"
    unfolding reply ValueOf_def by (cases v) simp_all
  with assms show ?thesis
    by (auto simp: InvokeReply_def)
qed

theorem InvokeReply_arity_mismatch_is_noop_witness:
  "\<exists>s'. InvokeReply
       (run_env [Output (ev ''OK'' [VString ''Hello,World'', VInt64 7])]) no_channels ''hello''
       (Some (GoPtr (GoStruct [StructField ''Word'' True (GoString ''before'')])))
       (Some [VString ''World''])
     = Returns (None, Some (GoPtr (GoStruct [StructField ''Word'' True (GoString ''before'')])), s')"
proof -
  obtain s' where a: "Invoke (run_env [Output (ev ''OK'' [VString ''Hello,World'', VInt64 7])])
       no_channels ''hello'' (Some [VString ''World''])
     = Some ((Some [VString ''Hello,World'', VInt64 7], None), s')"
    by (simp add: Invoke_def ev_def)
  have t: "TypeOf (Some (GoPtr (GoStruct [StructField ''Word'' True (GoString ''before'')])))
             = Some (TPtr (TStruct [StructField ''Word'' True TString]))"
    by (simp add: TypeOf_def)
  have n: "NumField (TStruct [StructField ''Word'' True TString]) = Inr 1"
    by simp
  have "1 \<noteq> len (Some [VString ''Hello,World'', VInt64 7])"
    by (simp add: len_def)
  from InvokeReply_arity_mismatch_is_noop [OF t n a this] show ?thesis ..
qed

text \<open>
  C10. A \<open>reply\<close> that is not a pointer (the nil interface included) never reaches the
  test of line 116: \<open>reflect.ValueOf(reply).Elem()\<close> of line 113 panics first, so the call
  does not return the error "reply must be pointer..."; no \<open>Invoke\<close> is performed.
\<close>

theorem InvokeReply_non_pointer_panics:
  assumes "Value_Kind (ValueOf reply) \<noteq> reflect_Ptr"
  shows "InvokeReply e s name reply args
           = Panics (ValueError ''reflect.Value.Elem'' (Value_Kind (ValueOf reply)))"
proof (cases reply)
  case None
  then show ?thesis by (simp add: InvokeReply_def ValueOf_def)
next
  case (Some v)
  with assms show ?thesis
    by (cases v) (simp_all add: InvokeReply_def ValueOf_def)
qed

theorem InvokeReply_struct_value_panics:
  "InvokeReply (run_env [Output (ev ''OK'' [VString ''Hello,World''])]) no_channels ''hello''
       (Some (GoStruct [StructField ''Word'' True (GoString '''')])) (Some [VString ''World''])
     = Panics (ValueError ''reflect.Value.Elem'' reflect_Struct)"
  using InvokeReply_non_pointer_panics
      [of "Some (GoStruct [StructField ''Word'' True (GoString '''')])"
          "run_env [Output (ev ''OK'' [VString ''Hello,World''])]" no_channels "''hello''"
          "Some [VString ''World'']"]
  by (simp add: ValueOf_def)

section \<open>Properties of the task registry\<close>

text \<open>
  C6. Registering a task under a name that is already registered fails with
  \<open>DuplicateTaskError\<close> and leaves the server, its registry included, as it was;
  registering under a fresh name succeeds and adds the handler. In particular the second
  of two registrations of \<open>"hello"\<close> on a new server fails.
\<close>

theorem RegisterTask_duplicate_fails:
  "(name \<in> dom (tasks srv)
      \<longrightarrow> RegisterTask srv name h = (Some DuplicateTaskError, srv))
   \<and> (name \<notin> dom (tasks srv)
      \<longrightarrow> fst (RegisterTask srv name h) = None
          \<and> tasks (snd (RegisterTask srv name h)) = (tasks srv)(name \<mapsto> h))
   \<and> fst (RegisterTask (snd (RegisterTask NewServer ''hello'' h)) ''hello'' h')
       = Some DuplicateTaskError"
  by (simp add: RegisterTask_def NewServer_def)

theorem RegisterTask_duplicate_fails_witness:
  "RegisterTask (snd (RegisterTask NewServer ''hello'' (1::nat))) ''hello'' 2
     = (Some DuplicateTaskError, snd (RegisterTask NewServer ''hello'' (1::nat)))
   \<and> fst (RegisterTask (NewServer :: nat server) ''hello'' 1) = None
   \<and> tasks (snd (RegisterTask NewServer ''hello'' (1::nat))) ''hello'' = Some 1"
proof -
  have fresh: "''hello'' \<notin> dom (tasks (NewServer :: nat server))"
    by (simp add: NewServer_def)
  from RegisterTask_duplicate_fails [of "''hello''" "NewServer :: nat server" 1] fresh
  have first: "fst (RegisterTask (NewServer :: nat server) ''hello'' 1) = None"
    and reg: "tasks (snd (RegisterTask NewServer ''hello'' (1::nat)))
                = (tasks NewServer)(''hello'' \<mapsto> 1)"
    by blast+
  from reg have "''hello'' \<in> dom (tasks (snd (RegisterTask NewServer ''hello'' (1::nat))))"
    by simp
  with RegisterTask_duplicate_fails
         [of "''hello''" "snd (RegisterTask NewServer ''hello'' (1::nat))" 2]
  have "RegisterTask (snd (RegisterTask NewServer ''hello'' (1::nat))) ''hello'' 2
     = (Some DuplicateTaskError, snd (RegisterTask NewServer ''hello'' (1::nat)))"
    by blast
  with first reg show ?thesis by simp
qed

end
